theory Spec2Isabelle
  imports Main
begin

section \<open>Errors\<close>

text \<open>
  Every exception the modelled code can raise is a value. \<open>JWTError\<close> stands for
  \<open>jose.JWTError\<close> and its subclasses (expired signature, bad claims); \<open>HTTPException\<close>
  carries the status code and the detail string.
\<close>

datatype jwt_failure = Malformed | BadSignature | ExpiredSignature | BadClaims

datatype error =
    JWTError jwt_failure
  | KeyError string
  | AttributeError string
  | HTTPException nat string
  | IntegrityError string
  | MultipleResultsFound
  | OverflowError

section \<open>Calendar dates\<close>

text \<open>
  \<open>datetime.date\<close> with \<open>date + timedelta(days=n)\<close>: the proleptic Gregorian calendar,
  years 1 to 9999. Adding days steps one day at a time; leaving the supported range, or a
  \<open>timedelta\<close> beyond 999999999 days, raises \<open>OverflowError\<close>.
\<close>

record date =
  year :: int
  month :: nat
  day :: nat

definition is_leap :: "int \<Rightarrow> bool" where
  "is_leap y = (y mod 4 = 0 \<and> (y mod 100 \<noteq> 0 \<or> y mod 400 = 0))"

definition days_in_month :: "int \<Rightarrow> nat \<Rightarrow> nat" where
  "days_in_month y m =
     (if m = 2 then (if is_leap y then 29 else 28)
      else if m = 4 \<or> m = 6 \<or> m = 9 \<or> m = 11 then 30 else 31)"

definition next_day :: "date \<Rightarrow> date" where
  "next_day d =
     (if day d < days_in_month (year d) (month d) then d\<lparr>day := day d + 1\<rparr>
      else if month d < 12 then d\<lparr>month := month d + 1, day := 1\<rparr>
      else \<lparr>year = year d + 1, month = 1, day = 1\<rparr>)"

definition prev_day :: "date \<Rightarrow> date" where
  "prev_day d =
     (if 1 < day d then d\<lparr>day := day d - 1\<rparr>
      else if 1 < month d
        then d\<lparr>month := month d - 1, day := days_in_month (year d) (month d - 1)\<rparr>
      else \<lparr>year = year d - 1, month = 12, day = 31\<rparr>)"

fun forward :: "nat \<Rightarrow> date \<Rightarrow> date" where
  "forward 0 d = d"
| "forward (Suc n) d = forward n (next_day d)"

fun backward :: "nat \<Rightarrow> date \<Rightarrow> date" where
  "backward 0 d = d"
| "backward (Suc n) d = backward n (prev_day d)"

definition date_add :: "date \<Rightarrow> int \<Rightarrow> error + date" where
  "date_add d n =
     (if n < - 999999999 \<or> 999999999 < n then Inl OverflowError
      else
        let r = (if 0 \<le> n then forward (nat n) d else backward (nat (- n)) d)
        in if year r < 1 \<or> 9999 < year r then Inl OverflowError else Inr r)"

section \<open>Signed tokens (the jose library, as the code uses it)\<close>

text \<open>
  A claim set is a Python dict, kept as an association list in insertion order. Times are
  whole seconds since the epoch, the resolution of a token's \<open>exp\<close> and \<open>iat\<close>; a
  \<open>timedelta\<close> is a number of seconds. \<open>Null\<close> is JSON null, Python's \<open>None\<close>.
\<close>

datatype claim = Str string | Timestamp int | Null

type_synonym claims = "(string \<times> claim) list"

text \<open>
  A token string is identified with what it encodes: \<open>Signed key alg payload\<close> is the
  compact serialisation of \<open>payload\<close> signed with \<open>key\<close> under algorithm \<open>alg\<close>, and
  \<open>Opaque s\<close> is any string \<open>s\<close> that is no such serialisation. Equality of tokens is
  equality of the strings.
\<close>

datatype token = Signed string string claims | Opaque string

text \<open>\<open>d[k] = v\<close>: an existing key keeps its place, a new key goes last.\<close>

fun dict_set :: "string \<Rightarrow> claim \<Rightarrow> claims \<Rightarrow> claims" where
  "dict_set k v [] = [(k, v)]"
| "dict_set k v ((k', v') # d) = (if k' = k then (k, v) # d else (k', v') # dict_set k v d)"

text \<open>\<open>d.get(k)\<close>: a missing key reads as \<open>None\<close>.\<close>

definition dict_get :: "claims \<Rightarrow> string \<Rightarrow> claim" where
  "dict_get d k = (case map_of d k of None \<Rightarrow> Null | Some v \<Rightarrow> v)"

text \<open>\<open>d[k]\<close>: a missing key raises \<open>KeyError\<close>.\<close>

definition dict_index :: "claims \<Rightarrow> string \<Rightarrow> error + claim" where
  "dict_index d k = (case map_of d k of None \<Rightarrow> Inl (KeyError k) | Some v \<Rightarrow> Inr v)"

text \<open>\<open>jwt.encode(claims, key, algorithm=alg)\<close>.\<close>

definition jwt_encode :: "claims \<Rightarrow> string \<Rightarrow> string \<Rightarrow> token" where
  "jwt_encode payload key alg = Signed key alg payload"

text \<open>
  \<open>jwt.decode(token, key, algorithms=algs)\<close> at time \<open>now\<close>: the string must be a
  serialised token, signed with \<open>key\<close> under one of \<open>algs\<close>; then the claims are
  validated: an \<open>exp\<close> claim must be a time that has not passed, a \<open>sub\<close> claim must be
  a string. Every failure is a \<open>JWTError\<close>. The registered claims that this code never
  issues (\<open>nbf\<close>, \<open>aud\<close>, \<open>iss\<close> and the like) are left out.
\<close>

definition validate_exp :: "int \<Rightarrow> claims \<Rightarrow> error option" where
  "validate_exp now payload =
     (case map_of payload ''exp'' of
        None \<Rightarrow> None
      | Some (Timestamp e) \<Rightarrow> if e < now then Some (JWTError ExpiredSignature) else None
      | Some other \<Rightarrow> Some (JWTError BadClaims))"

definition validate_sub :: "claims \<Rightarrow> error option" where
  "validate_sub payload =
     (case map_of payload ''sub'' of
        None \<Rightarrow> None
      | Some (Str s) \<Rightarrow> None
      | Some other \<Rightarrow> Some (JWTError BadClaims))"

definition jwt_decode :: "int \<Rightarrow> token \<Rightarrow> string \<Rightarrow> string list \<Rightarrow> error + claims" where
  "jwt_decode now tok key algs =
     (case tok of
        Opaque s \<Rightarrow> Inl (JWTError Malformed)
      | Signed k alg payload \<Rightarrow>
          if alg \<notin> set algs \<or> k \<noteq> key then Inl (JWTError BadSignature)
          else (case validate_exp now payload of
                  Some e \<Rightarrow> Inl e
                | None \<Rightarrow>
                    (case validate_sub payload of
                       Some e \<Rightarrow> Inl e
                     | None \<Rightarrow> Inr payload)))"

section \<open>Data model (src/database/models.py, src/schemas.py)\<close>

text \<open>
  Users and contacts share column names (\<open>id\<close>, \<open>email\<close>, \<open>created_at\<close>), so every field
  carries the prefix of its record: \<open>u_\<close> for \<open>User\<close>, \<open>c_\<close> for \<open>Contact\<close>, \<open>b_\<close> for the
  request body.
\<close>

datatype UserRole = USER | MODERATOR | ADMIN

text \<open>
  A row of table \<open>users\<close>. Timestamps are seconds since the epoch. \<open>avatar\<close> and
  \<open>refresh_token\<close> are nullable columns.
\<close>

record user =
  u_id :: nat
  u_username :: string
  u_email :: string
  u_hashed_password :: string
  u_created_at :: int
  u_avatar :: "string option"
  u_confirmed :: bool
  u_role :: UserRole
  u_refresh_token :: "token option"

text \<open>
  A row of table \<open>contacts\<close>. \<open>birthday\<close>, \<open>additional_info\<close> and the foreign key
  \<open>user_id\<close> are nullable columns.
\<close>

record contact =
  c_id :: nat
  c_first_name :: string
  c_last_name :: string
  c_email :: string
  c_phone_number :: string
  c_birthday :: "date option"
  c_additional_info :: "string option"
  c_created_at :: int
  c_updated_at :: int
  c_user_id :: "nat option"

text \<open>The request body \<open>ContactBase\<close>: every field is required.\<close>

record ContactBase =
  b_first_name :: string
  b_last_name :: string
  b_email :: string
  b_phone_number :: string
  b_birthday :: date
  b_additional_info :: "string option"

section \<open>Query helpers\<close>

text \<open>\<open>Result.scalar_one_or_none()\<close>: no row, the one row, or an error for several.\<close>

definition scalar_one_or_none :: "'a list \<Rightarrow> error + 'a option" where
  "scalar_one_or_none rows =
     (case rows of
        [] \<Rightarrow> Inr None
      | [r] \<Rightarrow> Inr (Some r)
      | _ \<Rightarrow> Inl MultipleResultsFound)"

text \<open>\<open>Query.first()\<close>: the first row or \<open>None\<close>.\<close>

definition first :: "'a list \<Rightarrow> 'a option" where
  "first rows = (case rows of [] \<Rightarrow> None | r # _ \<Rightarrow> Some r)"

text \<open>\<open>filter_by(user=user)\<close> compares the foreign key with the user's primary key.\<close>

definition filter_by_user :: "user \<Rightarrow> contact \<Rightarrow> bool" where
  "filter_by_user usr c = (c_user_id c = Some (u_id usr))"

text \<open>
  A condition on \<open>extract(..., Contact.birthday)\<close>: on a NULL birthday every comparison is
  NULL, and the row is not selected.
\<close>

definition on_birthday :: "(date \<Rightarrow> bool) \<Rightarrow> contact \<Rightarrow> bool" where
  "on_birthday P c = (case c_birthday c of None \<Rightarrow> False | Some b \<Rightarrow> P b)"

section \<open>ContactRepository (src/repository/contacts.py)\<close>

subsection \<open>get_upcoming_birthdays\<close>

text \<open>The \<open>or_(...)\<close> of the branch taken when \<open>target_date.year == today.year\<close>.\<close>

definition same_year_clause :: "date \<Rightarrow> date \<Rightarrow> date \<Rightarrow> bool" where
  "same_year_clause today target_date b =
     ((month b = month today \<and> day today \<le> day b)
      \<or> (month b = month target_date \<and> day b \<le> day target_date)
      \<or> (month today < month b \<and> month b < month target_date))"

text \<open>The \<open>or_(...)\<close> of the \<open>else\<close> branch (range crosses into the next year).\<close>

definition next_year_clause :: "date \<Rightarrow> date \<Rightarrow> date \<Rightarrow> bool" where
  "next_year_clause today target_date b =
     ((month b = month today \<and> day today \<le> day b)
      \<or> month today < month b
      \<or> (month b = month target_date \<and> day b \<le> day target_date)
      \<or> month b < month target_date)"

text \<open>
  \<open>today\<close> is the reading of \<open>date.today()\<close>; \<open>cs\<close> is table \<open>contacts\<close>. The first
  statement has \<open>.filter_by(user=user)\<close>, the second has not.
\<close>

definition get_upcoming_birthdays ::
  "date \<Rightarrow> contact list \<Rightarrow> user \<Rightarrow> int \<Rightarrow> error + contact list" where
  "get_upcoming_birthdays today cs usr days =
     (case date_add today days of
        Inl e \<Rightarrow> Inl e
      | Inr target_date \<Rightarrow>
          if year target_date = year today
          then Inr (filter (\<lambda>c. filter_by_user usr c
                              \<and> on_birthday (same_year_clause today target_date) c) cs)
          else Inr (filter (on_birthday (next_year_clause today target_date)) cs))"

subsection \<open>get_contacts\<close>

text \<open>
  \<open>if first_name:\<close> is Python truthiness on an \<open>Optional[str]\<close>: \<open>None\<close> and the empty
  string add no filter. \<open>like\<close> is the storage's \<open>LIKE\<close> operator (column value, then
  pattern); its collation belongs to the database.
\<close>

definition like_filter ::
  "(string \<Rightarrow> string \<Rightarrow> bool) \<Rightarrow> (contact \<Rightarrow> string) \<Rightarrow> string option
     \<Rightarrow> (contact \<Rightarrow> bool) list" where
  "like_filter like col arg =
     (case arg of
        None \<Rightarrow> []
      | Some s \<Rightarrow> if s = [] then [] else [\<lambda>c. like (col c) (''%'' @ s @ ''%'')])"

text \<open>
  \<open>skip\<close> and \<open>limit\<close> are the non-negative values the storage accepts for
  \<open>OFFSET\<close> and \<open>LIMIT\<close>.
\<close>

definition get_contacts ::
  "(string \<Rightarrow> string \<Rightarrow> bool) \<Rightarrow> contact list \<Rightarrow> user \<Rightarrow> nat \<Rightarrow> nat
     \<Rightarrow> string option \<Rightarrow> string option \<Rightarrow> string option \<Rightarrow> contact list" where
  "get_contacts like cs usr skip limit first_name last_name email =
     (let filters = like_filter like c_first_name first_name
                    @ like_filter like c_last_name last_name
                    @ like_filter like c_email email
      in take limit (drop skip
           (filter (\<lambda>c. filter_by_user usr c \<and> list_all (\<lambda>f. f c) filters) cs)))"

subsection \<open>get_contact_by_id\<close>

definition get_contact_by_id :: "contact list \<Rightarrow> nat \<Rightarrow> user \<Rightarrow> error + contact option" where
  "get_contact_by_id cs contact_id usr =
     scalar_one_or_none (filter (\<lambda>c. c_id c = contact_id \<and> filter_by_user usr c) cs)"

subsection \<open>Constraints of table contacts\<close>

text \<open>\<open>email = Column(String, unique=True, ...)\<close>: no other row has this email.\<close>

definition email_unique_violated :: "contact list \<Rightarrow> contact \<Rightarrow> bool" where
  "email_unique_violated cs c =
     (c_email c \<in> set (map c_email (filter (\<lambda>r. c_id r \<noteq> c_id c) cs)))"

text \<open>
  \<open>UniqueConstraint("email", "user_id", name="unique_email_user")\<close>: no other row has this
  pair; a NULL \<open>user_id\<close> never collides.
\<close>

definition unique_email_user_violated :: "contact list \<Rightarrow> contact \<Rightarrow> bool" where
  "unique_email_user_violated cs c =
     (c_user_id c \<noteq> None
      \<and> (c_email c, c_user_id c)
          \<in> set (map (\<lambda>r. (c_email r, c_user_id r)) (filter (\<lambda>r. c_id r \<noteq> c_id c) cs)))"

text \<open>The commit of a new or changed row: both constraints are checked by the storage.\<close>

definition check_constraints :: "contact list \<Rightarrow> contact \<Rightarrow> error option" where
  "check_constraints cs c =
     (if email_unique_violated cs c then Some (IntegrityError ''ix_contacts_email'')
      else if unique_email_user_violated cs c then Some (IntegrityError ''unique_email_user'')
      else None)"

text \<open>The primary key the storage gives a new row: one that no row has.\<close>

definition next_id :: "contact list \<Rightarrow> nat" where
  "next_id cs = Suc (fold max (map c_id cs) 0)"

subsection \<open>create_contact, update_contact, remove_contact\<close>

text \<open>
  Each returns the result or the error raised, and the table after the call. \<open>now\<close> is
  the storage's \<open>func.now()\<close>.
\<close>

definition create_contact ::
  "int \<Rightarrow> contact list \<Rightarrow> ContactBase \<Rightarrow> user \<Rightarrow> (error + contact) \<times> contact list" where
  "create_contact now cs body usr =
     (let contact = \<lparr>c_id = next_id cs,
                      c_first_name = b_first_name body,
                      c_last_name = b_last_name body,
                      c_email = b_email body,
                      c_phone_number = b_phone_number body,
                      c_birthday = Some (b_birthday body),
                      c_additional_info = b_additional_info body,
                      c_created_at = now,
                      c_updated_at = now,
                      c_user_id = Some (u_id usr)\<rparr>
      in (case check_constraints cs contact of
            Some e \<Rightarrow> (Inl e, cs)
          | None \<Rightarrow> (Inr contact, cs @ [contact])))"

definition update_contact ::
  "int \<Rightarrow> contact list \<Rightarrow> nat \<Rightarrow> ContactBase \<Rightarrow> user
     \<Rightarrow> (error + contact option) \<times> contact list" where
  "update_contact now cs contact_id body usr =
     (case get_contact_by_id cs contact_id usr of
        Inl e \<Rightarrow> (Inl e, cs)
      | Inr None \<Rightarrow> (Inr None, cs)
      | Inr (Some contact) \<Rightarrow>
          let contact' = contact\<lparr>c_first_name := b_first_name body,
                                  c_last_name := b_last_name body,
                                  c_birthday := Some (b_birthday body),
                                  c_additional_info := b_additional_info body,
                                  c_email := b_email body,
                                  c_phone_number := b_phone_number body,
                                  c_updated_at := now\<rparr>
          in (case check_constraints cs contact' of
                Some e \<Rightarrow> (Inl e, cs)
              | None \<Rightarrow>
                  (Inr (Some contact'),
                   map (\<lambda>r. if c_id r = c_id contact' then contact' else r) cs)))"

definition remove_contact ::
  "contact list \<Rightarrow> nat \<Rightarrow> user \<Rightarrow> (error + contact option) \<times> contact list" where
  "remove_contact cs contact_id usr =
     (case get_contact_by_id cs contact_id usr of
        Inl e \<Rightarrow> (Inl e, cs)
      | Inr None \<Rightarrow> (Inr None, cs)
      | Inr (Some contact) \<Rightarrow>
          (Inr (Some contact), filter (\<lambda>r. c_id r \<noteq> c_id contact) cs))"

section \<open>UserRepository (src/repository/users.py)\<close>


definition get_user_by_username :: "user list \<Rightarrow> string \<Rightarrow> error + user option" where
  "get_user_by_username us username =
     scalar_one_or_none (filter (\<lambda>u. u_username u = username) us)"

definition get_user_by_email :: "user list \<Rightarrow> string \<Rightarrow> error + user option" where
  "get_user_by_email us email = scalar_one_or_none (filter (\<lambda>u. u_email u = email) us)"

text \<open>
  The commit of a changed user object: the row with its primary key is overwritten.
\<close>

definition commit_user :: "user \<Rightarrow> user list \<Rightarrow> user list" where
  "commit_user usr us = map (\<lambda>r. if u_id r = u_id usr then usr else r) us"



text \<open>
  \<open>confirmed_email\<close> and \<open>update_avatar_url\<close> have no \<open>if user:\<close>: on \<open>None\<close> the
  attribute assignment raises \<open>AttributeError\<close>, before any commit.
\<close>

definition confirmed_email :: "user list \<Rightarrow> string \<Rightarrow> (error + unit) \<times> user list" where
  "confirmed_email us email =
     (case get_user_by_email us email of
        Inl e \<Rightarrow> (Inl e, us)
      | Inr None \<Rightarrow> (Inl (AttributeError ''confirmed''), us)
      | Inr (Some usr) \<Rightarrow> (Inr (), commit_user (usr\<lparr>u_confirmed := True\<rparr>) us))"


section \<open>Authentication service (src/services/auth.py)\<close>

text \<open>
  The configuration \<open>settings\<close> (src/conf/config.py) is a parameter of every function that
  reads it.
\<close>

record settings =
  JWT_SECRET :: string
  JWT_ALGORITHM :: string
  JWT_EXPIRATION_SECONDS :: int
  REFRESH_TOKEN_EXPIRE_MINUTES :: int

subsection \<open>Issuing tokens\<close>

text \<open>\<open>now\<close> is the reading of \<open>datetime.now(UTC)\<close>.\<close>

definition create_token :: "settings \<Rightarrow> int \<Rightarrow> claims \<Rightarrow> int \<Rightarrow> string \<Rightarrow> token" where
  "create_token cfg now data expires_delta token_type =
     (let expire = now + expires_delta;
          to_encode = dict_set ''token_type'' (Str token_type)
                        (dict_set ''iat'' (Timestamp now)
                           (dict_set ''exp'' (Timestamp expire) data))
      in jwt_encode to_encode (JWT_SECRET cfg) (JWT_ALGORITHM cfg))"

text \<open>\<open>if expires_delta:\<close> is false for \<open>None\<close> and for a zero \<open>timedelta\<close>.\<close>

definition create_access_token :: "settings \<Rightarrow> int \<Rightarrow> claims \<Rightarrow> int option \<Rightarrow> token" where
  "create_access_token cfg now data expires_delta =
     (case expires_delta of
        Some d \<Rightarrow>
          if d \<noteq> 0 then create_token cfg now data d ''access''
          else create_token cfg now data (JWT_EXPIRATION_SECONDS cfg) ''access''
      | None \<Rightarrow> create_token cfg now data (JWT_EXPIRATION_SECONDS cfg) ''access'')"

definition create_refresh_token :: "settings \<Rightarrow> int \<Rightarrow> claims \<Rightarrow> int option \<Rightarrow> token" where
  "create_refresh_token cfg now data expires_delta =
     (case expires_delta of
        Some d \<Rightarrow>
          if d \<noteq> 0 then create_token cfg now data d ''refresh''
          else create_token cfg now data (60 * REFRESH_TOKEN_EXPIRE_MINUTES cfg) ''refresh''
      | None \<Rightarrow> create_token cfg now data (60 * REFRESH_TOKEN_EXPIRE_MINUTES cfg) ''refresh'')"

text \<open>
  \<open>create_email_token\<close> reads the clock twice: \<open>now\<close> for the expiry, \<open>now'\<close> for \<open>iat\<close>.
  \<open>timedelta(days=7)\<close> is \<open>7 * 86400\<close> seconds.
\<close>

definition create_email_token :: "settings \<Rightarrow> int \<Rightarrow> int \<Rightarrow> claims \<Rightarrow> token" where
  "create_email_token cfg now now' data =
     (let expire = now + 7 * 86400;
          to_encode = dict_set ''exp'' (Timestamp expire)
                        (dict_set ''iat'' (Timestamp now') data)
      in jwt_encode to_encode (JWT_SECRET cfg) (JWT_ALGORITHM cfg))"

subsection \<open>Resolving the current user\<close>

definition credentials_exception :: error where
  "credentials_exception = HTTPException 401 ''Could not validate credentials''"

text \<open>
  Modelled from the spec: \<open>UserService.get_user_by_username\<close> (src/services/users.py is
  not among the sources) looks the user up in the User Directory by username; not-found is
  a normal outcome.
\<close>

definition UserService_get_user_by_username :: "user list \<Rightarrow> string \<Rightarrow> error + user option" where
  "UserService_get_user_by_username us username = get_user_by_username us username"

text \<open>
  The \<open>try\<close> block reads \<open>payload["sub"]\<close> and \<open>payload["token_type"]\<close> by index; only
  \<open>JWTError\<close> is caught. A subject that passed \<open>jwt_decode\<close> is a string.
\<close>

definition get_current_user :: "settings \<Rightarrow> int \<Rightarrow> user list \<Rightarrow> token \<Rightarrow> error + user" where
  "get_current_user cfg now us tok =
     (case jwt_decode now tok (JWT_SECRET cfg) [JWT_ALGORITHM cfg] of
        Inl (JWTError f) \<Rightarrow> Inl credentials_exception
      | Inl e \<Rightarrow> Inl e
      | Inr payload \<Rightarrow>
          (case dict_index payload ''sub'' of
             Inl e \<Rightarrow> Inl e
           | Inr username \<Rightarrow>
               (case dict_index payload ''token_type'' of
                  Inl e \<Rightarrow> Inl e
                | Inr token_type \<Rightarrow>
                    if username = Null \<or> token_type \<noteq> Str ''access''
                    then Inl credentials_exception
                    else (case username of
                            Str name \<Rightarrow>
                              (case UserService_get_user_by_username us name of
                                 Inl e \<Rightarrow> Inl e
                               | Inr None \<Rightarrow> Inl credentials_exception
                               | Inr (Some usr) \<Rightarrow> Inr usr)
                          | other \<Rightarrow> Inl credentials_exception))))"

subsection \<open>Role checks\<close>

definition get_current_moderator_user :: "user \<Rightarrow> error + user" where
  "get_current_moderator_user current_user =
     (if u_role current_user \<notin> set [MODERATOR, ADMIN]
      then Inl (HTTPException 403 ''Not enough permissions'')
      else Inr current_user)"

definition get_current_admin_user :: "user \<Rightarrow> error + user" where
  "get_current_admin_user current_user =
     (if u_role current_user \<noteq> ADMIN
      then Inl (HTTPException 403 ''Not enough permissions'')
      else Inr current_user)"

subsection \<open>verify_refresh_token\<close>

text \<open>
  The \<open>try\<close> block reads the claims with \<open>payload.get\<close>, which gives \<open>None\<close> for a
  missing claim; \<open>JWTError\<close> is caught and becomes \<open>None\<close>; every other exception passes.

  The last statement is \<open>db.query(User).filter(User.username == username,
  User.refresh_token == refresh_token).first()\<close>. By the imports at the head of
  src/services/auth.py, \<open>Session\<close> (the annotation of \<open>db\<close>) is \<open>requests.Session\<close> and
  \<open>User\<close> is the pydantic schema of src/schemas.py, with the fields \<open>id\<close>, \<open>username\<close>,
  \<open>email\<close>, \<open>avatar\<close> and \<open>role\<close>; the sessions this application works with are
  \<open>AsyncSession\<close> objects. Neither kind of session has an attribute \<open>query\<close>, so the
  statement raises \<open>AttributeError\<close> before a row is read. (A session with such a method
  would not get further: \<open>User\<close> is no mapped class, and \<open>User.username\<close> and
  \<open>User.refresh_token\<close> are no attributes of it.) The table \<open>us\<close> behind the session is
  never consulted.
\<close>

definition verify_refresh_token ::
  "settings \<Rightarrow> int \<Rightarrow> user list \<Rightarrow> token \<Rightarrow> error + user option" where
  "verify_refresh_token cfg now us tok =
     (case jwt_decode now tok (JWT_SECRET cfg) [JWT_ALGORITHM cfg] of
        Inl (JWTError f) \<Rightarrow> Inr None
      | Inl e \<Rightarrow> Inl e
      | Inr payload \<Rightarrow>
          (let username = dict_get payload ''sub'';
               token_type = dict_get payload ''token_type''
           in if username = Null \<or> token_type \<noteq> Str ''refresh'' then Inr None
              else Inl (AttributeError ''query'')))"

text \<open>
  The same function text with the two names bound as the query needs them: \<open>db\<close> a
  synchronous session on table \<open>users\<close>, and \<open>User\<close> the mapped class of
  src/database/models.py. The query then selects the rows whose username is the subject
  and whose stored refresh token is the presented string, and takes the first.
\<close>

definition verify_refresh_token_mapped ::
  "settings \<Rightarrow> int \<Rightarrow> user list \<Rightarrow> token \<Rightarrow> error + user option" where
  "verify_refresh_token_mapped cfg now us tok =
     (case jwt_decode now tok (JWT_SECRET cfg) [JWT_ALGORITHM cfg] of
        Inl (JWTError f) \<Rightarrow> Inr None
      | Inl e \<Rightarrow> Inl e
      | Inr payload \<Rightarrow>
          (let username = dict_get payload ''sub'';
               token_type = dict_get payload ''token_type''
           in if username = Null \<or> token_type \<noteq> Str ''refresh'' then Inr None
              else Inr (first (filter (\<lambda>u. Str (u_username u) = username
                                             \<and> u_refresh_token u = Some tok) us))))"

section \<open>Concrete inputs\<close>

text \<open>The users, contacts, tokens and settings at which the theorems below are instantiated.\<close>

definition example_settings :: settings where
  "example_settings = \<lparr>JWT_SECRET = ''secret'', JWT_ALGORITHM = ''HS256'',
     JWT_EXPIRATION_SECONDS = 3600, REFRESH_TOKEN_EXPIRE_MINUTES = 10080\<rparr>"

definition example_user :: "nat \<Rightarrow> string \<Rightarrow> UserRole \<Rightarrow> token option \<Rightarrow> user" where
  "example_user i name r tok =
     \<lparr>u_id = i, u_username = name, u_email = name @ ''@example.org'',
      u_hashed_password = ''hashed'', u_created_at = 0, u_avatar = None,
      u_confirmed = True, u_role = r, u_refresh_token = tok\<rparr>"

definition alice :: user where
  "alice = example_user 1 ''alice'' USER None"

definition bob :: user where
  "bob = example_user 2 ''bob'' MODERATOR None"

text \<open>Alice after a login at time 1000: her refresh token is stored on her record.\<close>

definition alice_refresh_token :: token where
  "alice_refresh_token =
     create_refresh_token example_settings 1000 [(''sub'', Str ''alice'')] None"

definition alice_logged_in :: user where
  "alice_logged_in = alice\<lparr>u_refresh_token := Some alice_refresh_token\<rparr>"

definition example_contact :: "nat \<Rightarrow> user \<Rightarrow> string \<Rightarrow> nat \<Rightarrow> nat \<Rightarrow> contact" where
  "example_contact i owner em m d =
     \<lparr>c_id = i, c_first_name = ''Ann'', c_last_name = ''Lee'', c_email = em,
      c_phone_number = ''555'', c_birthday = Some \<lparr>year = 1990, month = m, day = d\<rparr>,
      c_additional_info = None, c_created_at = 0, c_updated_at = 0,
      c_user_id = Some (u_id owner)\<rparr>"

definition address_book :: "contact list" where
  "address_book =
     [example_contact 1 alice ''ann@example.org'' 3 5,
      example_contact 2 alice ''ben@example.org'' 3 20,
      example_contact 3 bob ''benny@example.org'' 6 1]"

definition example_body :: "string \<Rightarrow> ContactBase" where
  "example_body em =
     \<lparr>b_first_name = ''Ann'', b_last_name = ''Lee'', b_email = em, b_phone_number = ''555'',
      b_birthday = \<lparr>year = 1990, month = 3, day = 5\<rparr>, b_additional_info = None\<rparr>"

text \<open>
  A \<open>LIKE\<close> operator for patterns of the form \<open>%s%\<close> with no wildcard inside \<open>s\<close>:
  the value contains \<open>s\<close>, case-sensitively.
\<close>

fun contains :: "string \<Rightarrow> string \<Rightarrow> bool" where
  "contains s [] = (s = [])"
| "contains s (x # xs) = (take (length s) (x # xs) = s \<or> contains s xs)"

definition example_like :: "string \<Rightarrow> string \<Rightarrow> bool" where
  "example_like v pattern = contains (butlast (tl pattern)) v"

section \<open>Basic facts\<close>

lemma alice_simps:
  "u_id alice = 1" "u_username alice = ''alice''" "u_email alice = ''alice@example.org''"
  "u_role alice = USER"
  by (simp_all add: alice_def example_user_def)

lemma bob_simps:
  "u_id bob = 2" "u_username bob = ''bob''" "u_email bob = ''bob@example.org''"
  "u_role bob = MODERATOR"
  by (simp_all add: bob_def example_user_def)

lemma alice_refresh_token_eq:
  "alice_refresh_token = Signed ''secret'' ''HS256''
     [(''sub'', Str ''alice''), (''exp'', Timestamp 605800), (''iat'', Timestamp 1000),
      (''token_type'', Str ''refresh'')]"
  by (simp add: alice_refresh_token_def create_refresh_token_def create_token_def
      jwt_encode_def example_settings_def Let_def)

lemma date_add_march:
  "date_add \<lparr>year = 2024, month = 3, day = 1\<rparr> 7 = Inr \<lparr>year = 2024, month = 3, day = 8\<rparr>"
  by code_simp

lemma date_add_december:
  "date_add \<lparr>year = 2024, month = 12, day = 28\<rparr> 7 = Inr \<lparr>year = 2025, month = 1, day = 4\<rparr>"
  by code_simp

lemma map_of_dict_set: "map_of (dict_set k v d) = (map_of d)(k \<mapsto> v)"
  by (induction d) auto

lemma dict_get_Str: "dict_get d k = Str s \<longleftrightarrow> map_of d k = Some (Str s)"
  by (auto simp: dict_get_def split: option.splits)

lemma filter_missing_key: "k \<notin> set (map f rows) \<Longrightarrow> filter (\<lambda>r. f r = k) rows = []"
  by (induction rows) auto


lemma scalar_one_or_none_Some:
  "scalar_one_or_none rows = Inr (Some r) \<Longrightarrow> rows = [r]"
  by (auto simp: scalar_one_or_none_def split: list.splits)

lemma first_filter_Some:
  "first (filter P rows) = Some r \<Longrightarrow> r \<in> set rows \<and> P r"
proof -
  assume "first (filter P rows) = Some r"
  then obtain rest where "filter P rows = r # rest"
    by (auto simp: first_def split: list.splits)
  then have "r \<in> set (filter P rows)"
    by simp
  then show ?thesis
    by simp
qed

section \<open>Contacts: every query but one is scoped to the owner\<close>

lemma get_contacts_owned:
  "c \<in> set (get_contacts like cs usr skip limit first_name last_name email) \<Longrightarrow>
     c \<in> set cs \<and> c_user_id c = Some (u_id usr)"
proof -
  assume "c \<in> set (get_contacts like cs usr skip limit first_name last_name email)"
  then have "c \<in> set (filter (\<lambda>c. filter_by_user usr c
      \<and> list_all (\<lambda>f. f c) (like_filter like c_first_name first_name
                    @ like_filter like c_last_name last_name
                    @ like_filter like c_email email)) cs)"
    unfolding get_contacts_def Let_def by (blast dest: in_set_takeD in_set_dropD)
  then show ?thesis
    by (simp add: filter_by_user_def)
qed

lemma get_contact_by_id_owned:
  assumes "get_contact_by_id cs contact_id usr = Inr (Some c)"
  shows "c \<in> set cs \<and> c_id c = contact_id \<and> c_user_id c = Some (u_id usr)"
proof -
  from assms have "filter (\<lambda>c. c_id c = contact_id \<and> filter_by_user usr c) cs = [c]"
    unfolding get_contact_by_id_def by (rule scalar_one_or_none_Some)
  then have "c \<in> set (filter (\<lambda>c. c_id c = contact_id \<and> filter_by_user usr c) cs)"
    by simp
  then show ?thesis
    by (simp add: filter_by_user_def)
qed

lemma create_contact_owned:
  "create_contact now cs body usr = (Inr c, cs') \<Longrightarrow>
     c_user_id c = Some (u_id usr) \<and> cs' = cs @ [c]"
  by (auto simp: create_contact_def Let_def split: option.splits)

lemma update_contact_owned:
  "update_contact now cs contact_id body usr = (Inr (Some c), cs') \<Longrightarrow>
     c_id c = contact_id \<and> c_user_id c = Some (u_id usr)"
  by (auto simp: update_contact_def Let_def split: sum.splits option.splits
      dest!: get_contact_by_id_owned)

lemma remove_contact_owned:
  "remove_contact cs contact_id usr = (Inr (Some c), cs') \<Longrightarrow>
     c_id c = contact_id \<and> c_user_id c = Some (u_id usr)"
  by (auto simp: remove_contact_def split: sum.splits option.splits
      dest!: get_contact_by_id_owned)

text \<open>The branch of \<open>get_upcoming_birthdays\<close> for a window within one year filters by owner.\<close>

lemma get_upcoming_birthdays_same_year_owned:
  assumes "date_add today days = Inr target" and "year target = year today"
    and "get_upcoming_birthdays today cs usr days = Inr r" and "c \<in> set r"
  shows "c \<in> set cs \<and> c_user_id c = Some (u_id usr)"
  using assms by (auto simp: get_upcoming_birthdays_def filter_by_user_def)

text \<open>
  C1 (every contact returned by a contact-store operation is owned by the asking user,
  also when the birthday window crosses the year boundary), at the failing input. On
  2024-12-28 with a window of 7 days the target date is in 2025, so the second query runs.
  Alice (user 1) asks; the table holds one contact, owned by Bob (user 2), born on a
  2 January. The contact is returned to Alice: the second query has no owner filter.
\<close>

theorem upcoming_birthdays_year_wrap_leaks_other_owner:
  "get_upcoming_birthdays \<lparr>year = 2024, month = 12, day = 28\<rparr>
     [example_contact 1 bob ''ann@example.org'' 1 2] alice 7
   = Inr [example_contact 1 bob ''ann@example.org'' 1 2]
   \<and> c_user_id (example_contact 1 bob ''ann@example.org'' 1 2) = Some 2
   \<and> u_id alice = 1"
  using date_add_december
  by (simp add: get_upcoming_birthdays_def on_birthday_def
      next_year_clause_def example_contact_def alice_simps bob_simps)

section \<open>Upcoming birthdays: which dates match\<close>

text \<open>
  C2 (on 2024-03-01 with a window of 7 days a birthday on 5 March is included and one on
  20 March is excluded), at the failing input. The target date is 2024-03-08. Of Alice's
  two contacts, born on a 5 March and on a 20 March, both are returned: the 20th satisfies
  the first disjunct (same month as today, day not before today's), although it lies after
  the target date.
\<close>

theorem upcoming_birthdays_same_month_includes_day_20:
  "get_upcoming_birthdays \<lparr>year = 2024, month = 3, day = 1\<rparr>
     [example_contact 1 alice ''ann@example.org'' 3 5,
      example_contact 2 alice ''ben@example.org'' 3 20] alice 7
   = Inr [example_contact 1 alice ''ann@example.org'' 3 5,
          example_contact 2 alice ''ben@example.org'' 3 20]"
  using date_add_march
  by (simp add: get_upcoming_birthdays_def on_birthday_def filter_by_user_def
      same_year_clause_def example_contact_def alice_simps)

text \<open>
  C8. When the target date lies in another year than today, the call returns, and a
  contact is in the result exactly when it is in the table, has a birthday, and the
  birthday's month and day satisfy: month equal to today's and day not before today's, or
  month after today's, or month equal to the target's and day not after the target's, or
  month before the target's.
\<close>

theorem year_wrap_match:
  assumes "date_add today days = Inr target" and "year target \<noteq> year today"
  shows "\<exists>r. get_upcoming_birthdays today cs usr days = Inr r
           \<and> (\<forall>c. c \<in> set r \<longleftrightarrow>
                 c \<in> set cs
               \<and> (\<exists>b. c_birthday c = Some b
                    \<and> ((month b = month today \<and> day today \<le> day b)
                       \<or> month today < month b
                       \<or> (month b = month target \<and> day b \<le> day target)
                       \<or> month b < month target)))"
  using assms
  by (auto simp: get_upcoming_birthdays_def on_birthday_def next_year_clause_def
      split: option.splits)

text \<open>
  On 2024-12-28 with a window of 7 days the target is 2025-01-04: a birthday on 2 January
  matches, one on 1 June does not.
\<close>

theorem year_wrap_match_witness:
  "date_add \<lparr>year = 2024, month = 12, day = 28\<rparr> 7 = Inr \<lparr>year = 2025, month = 1, day = 4\<rparr>
   \<and> year \<lparr>year = 2025, month = 1, day = 4\<rparr> \<noteq> year \<lparr>year = 2024, month = 12, day = 28\<rparr>
   \<and> (\<exists>r. get_upcoming_birthdays \<lparr>year = 2024, month = 12, day = 28\<rparr>
             [example_contact 1 alice ''ann@example.org'' 1 2,
              example_contact 2 alice ''ben@example.org'' 6 1] alice 7 = Inr r
          \<and> example_contact 1 alice ''ann@example.org'' 1 2 \<in> set r
          \<and> example_contact 2 alice ''ben@example.org'' 6 1 \<notin> set r)"
proof -
  have wrap: "year \<lparr>year = 2025, month = 1, day = 4\<rparr> \<noteq> year \<lparr>year = 2024, month = 12, day = 28\<rparr>"
    by simp
  from year_wrap_match [OF date_add_december wrap,
      of "[example_contact 1 alice ''ann@example.org'' 1 2,
           example_contact 2 alice ''ben@example.org'' 6 1]" alice]
  obtain r where r: "get_upcoming_birthdays \<lparr>year = 2024, month = 12, day = 28\<rparr>
             [example_contact 1 alice ''ann@example.org'' 1 2,
              example_contact 2 alice ''ben@example.org'' 6 1] alice 7 = Inr r"
    and mem: "\<And>c. c \<in> set r \<longleftrightarrow>
                 c \<in> set [example_contact 1 alice ''ann@example.org'' 1 2,
                           example_contact 2 alice ''ben@example.org'' 6 1]
               \<and> (\<exists>b. c_birthday c = Some b
                    \<and> ((month b = month \<lparr>year = 2024, month = 12, day = 28\<rparr>
                          \<and> day \<lparr>year = 2024, month = 12, day = 28\<rparr> \<le> day b)
                       \<or> month \<lparr>year = 2024, month = 12, day = 28\<rparr> < month b
                       \<or> (month b = month \<lparr>year = 2025, month = 1, day = 4\<rparr>
                          \<and> day b \<le> day \<lparr>year = 2025, month = 1, day = 4\<rparr>)
                       \<or> month b < month \<lparr>year = 2025, month = 1, day = 4\<rparr>))"
    by blast
  have "example_contact 1 alice ''ann@example.org'' 1 2 \<in> set r"
    by (simp add: mem example_contact_def)
  moreover have "example_contact 2 alice ''ben@example.org'' 6 1 \<notin> set r"
    by (simp add: mem example_contact_def)
  ultimately show ?thesis
    using r date_add_december wrap by blast
qed

section \<open>Contacts: uniqueness of the email\<close>

text \<open>A second contact with the same email under the same user fails at the commit.\<close>

lemma create_contact_same_email_same_user_fails:
  "create_contact 200 [example_contact 1 alice ''ann@example.org'' 3 5]
     (example_body ''ann@example.org'') alice
   = (Inl (IntegrityError ''ix_contacts_email''),
      [example_contact 1 alice ''ann@example.org'' 3 5])"
  by (simp add: create_contact_def check_constraints_def email_unique_violated_def
      unique_email_user_violated_def next_id_def Let_def example_contact_def example_body_def
      alice_simps)

text \<open>
  C3 (the email of a contact is unique per owner: the same email under two different
  users succeeds for both), at the failing input. Alice creates a contact with email
  ann@example.org in an empty table, which succeeds. Bob then creates a contact with the
  same email: the commit fails on the unique index of column \<open>email\<close>, and the table is
  unchanged.
\<close>

theorem create_contact_same_email_other_user_fails:
  "create_contact 100 [] (example_body ''ann@example.org'') alice
     = (Inr (example_contact 1 alice ''ann@example.org'' 3 5
              \<lparr>c_created_at := 100, c_updated_at := 100\<rparr>),
        [example_contact 1 alice ''ann@example.org'' 3 5
              \<lparr>c_created_at := 100, c_updated_at := 100\<rparr>])
   \<and> create_contact 200
        [example_contact 1 alice ''ann@example.org'' 3 5
              \<lparr>c_created_at := 100, c_updated_at := 100\<rparr>]
        (example_body ''ann@example.org'') bob
     = (Inl (IntegrityError ''ix_contacts_email''),
        [example_contact 1 alice ''ann@example.org'' 3 5
              \<lparr>c_created_at := 100, c_updated_at := 100\<rparr>])"
  by (simp add: create_contact_def check_constraints_def email_unique_violated_def
      unique_email_user_violated_def next_id_def Let_def example_contact_def example_body_def
      alice_simps bob_simps)

section \<open>Contacts: the filters of the list query\<close>

lemma list_all_like_filter:
  "list_all (\<lambda>f. f c) (like_filter like col arg) \<longleftrightarrow>
     (\<forall>s. arg = Some s \<and> s \<noteq> [] \<longrightarrow> like (col c) (''%'' @ s @ ''%''))"
  by (cases arg) (auto simp: like_filter_def)

lemma like_filter_empty: "like_filter like col (Some []) = like_filter like col None"
  by (simp add: like_filter_def)

text \<open>
  C10. For every owner and pagination, an empty string as first-name, last-name or email
  filter gives the result of the call with that filter omitted; and the result is the page
  of the owner's contacts restricted by a \<open>LIKE\<close> condition for each filter that is a
  non-empty string, and by nothing else.
\<close>

theorem get_contacts_empty_filter:
  "get_contacts like cs usr skip limit (Some []) last_name email
     = get_contacts like cs usr skip limit None last_name email
   \<and> get_contacts like cs usr skip limit first_name (Some []) email
     = get_contacts like cs usr skip limit first_name None email
   \<and> get_contacts like cs usr skip limit first_name last_name (Some [])
     = get_contacts like cs usr skip limit first_name last_name None
   \<and> get_contacts like cs usr skip limit first_name last_name email
     = take limit (drop skip (filter (\<lambda>c. filter_by_user usr c
         \<and> (\<forall>s. first_name = Some s \<and> s \<noteq> [] \<longrightarrow> like (c_first_name c) (''%'' @ s @ ''%''))
         \<and> (\<forall>s. last_name = Some s \<and> s \<noteq> [] \<longrightarrow> like (c_last_name c) (''%'' @ s @ ''%''))
         \<and> (\<forall>s. email = Some s \<and> s \<noteq> [] \<longrightarrow> like (c_email c) (''%'' @ s @ ''%''))) cs))"
  by (simp add: get_contacts_def like_filter_empty list_all_like_filter Let_def)

text \<open>
  Alice lists her contacts in an address book of three (two hers, one Bob's): the empty
  first-name filter returns both of hers, as no filter does; the email filter \<open>ben\<close>
  returns the one whose email contains it.
\<close>

theorem get_contacts_empty_filter_witness:
  "get_contacts example_like address_book alice 0 10 (Some '''') None None
     = get_contacts example_like address_book alice 0 10 None None None
   \<and> get_contacts example_like address_book alice 0 10 (Some '''') None None
     = [example_contact 1 alice ''ann@example.org'' 3 5,
        example_contact 2 alice ''ben@example.org'' 3 20]
   \<and> get_contacts example_like address_book alice 0 10 None None (Some ''ben'')
     = [example_contact 2 alice ''ben@example.org'' 3 20]"
proof -
  note a = get_contacts_empty_filter [where like = example_like and cs = address_book
      and usr = alice and skip = 0 and limit = 10
      and first_name = "Some ''''" and last_name = None and email = None]
  note b = get_contacts_empty_filter [where like = example_like and cs = address_book
      and usr = alice and skip = 0 and limit = 10
      and first_name = None and last_name = None and email = "Some ''ben''"]
  from a have 1: "get_contacts example_like address_book alice 0 10 (Some '''') None None
     = get_contacts example_like address_book alice 0 10 None None None"
    by (rule conjunct1)
  have 2: "get_contacts example_like address_book alice 0 10 (Some '''') None None
     = [example_contact 1 alice ''ann@example.org'' 3 5,
        example_contact 2 alice ''ben@example.org'' 3 20]"
    by (subst a [THEN conjunct2, THEN conjunct2, THEN conjunct2])
      (simp add: address_book_def filter_by_user_def example_contact_def alice_simps bob_simps)
  have 3: "get_contacts example_like address_book alice 0 10 None None (Some ''ben'')
     = [example_contact 2 alice ''ben@example.org'' 3 20]"
    by (subst b [THEN conjunct2, THEN conjunct2, THEN conjunct2])
      (simp add: address_book_def filter_by_user_def example_contact_def example_like_def
        alice_simps bob_simps)
  from 1 2 3 show ?thesis
    by blast
qed

section \<open>Users: the setters\<close>



lemma get_user_by_email_missing:
  "email \<notin> set (map u_email us) \<Longrightarrow> get_user_by_email us email = Inr None"
  by (simp add: get_user_by_email_def filter_missing_key scalar_one_or_none_def)



text \<open>\<open>confirmed_email\<close> has the same shape: a missing email raises, nothing is stored.\<close>

lemma confirmed_email_missing_user_raises:
  "email \<notin> set (map u_email us) \<Longrightarrow>
     confirmed_email us email = (Inl (AttributeError ''confirmed''), us)"
  by (simp add: confirmed_email_def get_user_by_email_missing)




section \<open>Tokens: what is issued and what decodes\<close>

lemma validate_exp_None_iff:
  "validate_exp now payload = None \<longleftrightarrow>
     (map_of payload ''exp'' = None
      \<or> (\<exists>e. map_of payload ''exp'' = Some (Timestamp e) \<and> now \<le> e))"
  by (auto simp: validate_exp_def split: option.splits claim.splits)

lemma validate_sub_None_iff:
  "validate_sub payload = None \<longleftrightarrow>
     (map_of payload ''sub'' = None \<or> (\<exists>s. map_of payload ''sub'' = Some (Str s)))"
  by (auto simp: validate_sub_def split: option.splits claim.splits)

lemma jwt_decode_Inr_iff:
  "jwt_decode now tok key algs = Inr payload \<longleftrightarrow>
     (\<exists>alg. tok = Signed key alg payload \<and> alg \<in> set algs
        \<and> validate_exp now payload = None \<and> validate_sub payload = None)"
  by (cases tok) (auto simp: jwt_decode_def split: option.splits)

lemma jwt_decode_error: "jwt_decode now tok key algs = Inl e \<Longrightarrow> \<exists>f. e = JWTError f"
  by (cases tok) (auto simp: jwt_decode_def validate_exp_def validate_sub_def
      split: option.splits claim.splits if_splits)

text \<open>
  C9. Every token that \<open>create_token\<close> issues is signed with the configured secret and
  algorithm and carries \<open>iat\<close> equal to the issue time, \<open>exp\<close> equal to the issue time plus
  the given time to live, and the given type tag, beside the subject it was given. A token
  of \<open>create_email_token\<close> (email confirmation, password reset) is signed with the same
  secret and algorithm and carries \<open>exp\<close> equal to the time of issue plus 7 days.
\<close>

theorem issued_token_claims:
  "(\<exists>p. create_token cfg now data ttl token_type
            = Signed (JWT_SECRET cfg) (JWT_ALGORITHM cfg) p
        \<and> map_of p ''iat'' = Some (Timestamp now)
        \<and> map_of p ''exp'' = Some (Timestamp (now + ttl))
        \<and> map_of p ''token_type'' = Some (Str token_type)
        \<and> map_of p ''sub'' = map_of data ''sub'')
   \<and> (\<exists>p. create_email_token cfg now now' data
            = Signed (JWT_SECRET cfg) (JWT_ALGORITHM cfg) p
        \<and> map_of p ''exp'' = Some (Timestamp (now + 7 * 86400))
        \<and> map_of p ''iat'' = Some (Timestamp now')
        \<and> map_of p ''sub'' = map_of data ''sub'')"
  by (simp add: create_token_def create_email_token_def jwt_encode_def Let_def map_of_dict_set)

text \<open>
  An access token for Alice issued at time 1000 for 900 seconds, and an email token
  issued at time 1000: it expires at 1000 + 604800.
\<close>

theorem issued_token_claims_witness:
  "create_token example_settings 1000 [(''sub'', Str ''alice'')] 900 ''access''
     = Signed ''secret'' ''HS256''
         [(''sub'', Str ''alice''), (''exp'', Timestamp 1900), (''iat'', Timestamp 1000),
          (''token_type'', Str ''access'')]
   \<and> (\<exists>p. create_email_token example_settings 1000 1000 [(''sub'', Str ''alice@example.org'')]
            = Signed ''secret'' ''HS256'' p
        \<and> map_of p ''exp'' = Some (Timestamp 605800))"
proof -
  have "create_token example_settings 1000 [(''sub'', Str ''alice'')] 900 ''access''
     = Signed ''secret'' ''HS256''
         [(''sub'', Str ''alice''), (''exp'', Timestamp 1900), (''iat'', Timestamp 1000),
          (''token_type'', Str ''access'')]"
    by (simp add: create_token_def jwt_encode_def example_settings_def Let_def)
  moreover from issued_token_claims [of example_settings 1000
      "[(''sub'', Str ''alice@example.org'')]" 900 "''access''" 1000]
  have "\<exists>p. create_email_token example_settings 1000 1000 [(''sub'', Str ''alice@example.org'')]
            = Signed ''secret'' ''HS256'' p
        \<and> map_of p ''exp'' = Some (Timestamp 605800)"
    by (auto simp: example_settings_def)
  ultimately show ?thesis
    by blast
qed

text \<open>The wrappers pass the caller's time to live on, or the configured one.\<close>

lemma create_access_token_default:
  "create_access_token cfg now data None
     = create_token cfg now data (JWT_EXPIRATION_SECONDS cfg) ''access''"
  "d \<noteq> 0 \<Longrightarrow> create_access_token cfg now data (Some d) = create_token cfg now data d ''access''"
  by (simp_all add: create_access_token_def)

lemma create_refresh_token_default:
  "create_refresh_token cfg now data None
     = create_token cfg now data (60 * REFRESH_TOKEN_EXPIRE_MINUTES cfg) ''refresh''"
  "d \<noteq> 0 \<Longrightarrow> create_refresh_token cfg now data (Some d) = create_token cfg now data d ''refresh''"
  by (simp_all add: create_refresh_token_def)

text \<open>An issued token with a string subject decodes until its expiry.\<close>

lemma create_token_decodes:
  assumes "validate_sub data = None" and "t \<le> now + ttl"
  shows "\<exists>payload. jwt_decode t (create_token cfg now data ttl token_type)
                     (JWT_SECRET cfg) [JWT_ALGORITHM cfg] = Inr payload"
  using assms
  by (simp add: create_token_def jwt_encode_def jwt_decode_def validate_exp_def validate_sub_def
      map_of_dict_set Let_def split: option.splits claim.splits)

section \<open>Resolving the current user\<close>

text \<open>An access token of an existing user resolves to that user.\<close>

lemma get_current_user_access_token:
  "get_current_user example_settings 2000 [alice, bob]
     (create_access_token example_settings 1000 [(''sub'', Str ''alice'')] None)
   = Inr alice"
  by (simp add: get_current_user_def create_access_token_def create_token_def jwt_encode_def
      jwt_decode_def validate_exp_def validate_sub_def dict_index_def example_settings_def
      UserService_get_user_by_username_def get_user_by_username_def scalar_one_or_none_def
      alice_simps bob_simps Let_def)

text \<open>A refresh token presented as bearer token is refused with 401.\<close>

lemma get_current_user_refresh_token_unauthorized:
  "get_current_user example_settings 2000 [alice_logged_in, bob] alice_refresh_token
   = Inl credentials_exception"
  by (simp add: get_current_user_def alice_refresh_token_eq jwt_decode_def validate_exp_def
      validate_sub_def dict_index_def example_settings_def)

text \<open>Every undecodable token is refused with 401.\<close>

lemma get_current_user_undecodable:
  assumes "jwt_decode now tok (JWT_SECRET cfg) [JWT_ALGORITHM cfg] = Inl e"
  shows "get_current_user cfg now us tok = Inl credentials_exception"
proof -
  from assms obtain f where "e = JWTError f"
    using jwt_decode_error by blast
  with assms show ?thesis
    by (simp add: get_current_user_def)
qed

text \<open>
  C6 (for every bearer token, \<open>get_current_user\<close> fails with Unauthorized when the token
  is invalid, expired, of another type than access, or names no user, and returns the user
  otherwise), at the failing input. The bearer token is the email-confirmation token that
  \<open>create_email_token\<close> issued for Alice at time 1000: validly signed, unexpired at time
  2000, and without a \<open>token_type\<close> claim. The call raises \<open>KeyError\<close>: it neither fails
  with 401 nor returns a user.
\<close>

theorem get_current_user_email_token_key_error:
  "get_current_user example_settings 2000 [alice]
     (create_email_token example_settings 1000 1000 [(''sub'', Str ''alice@example.org'')])
   = Inl (KeyError ''token_type'')"
  by (simp add: get_current_user_def create_email_token_def jwt_encode_def jwt_decode_def
      validate_exp_def validate_sub_def dict_index_def example_settings_def Let_def)

section \<open>Verifying a refresh token\<close>

text \<open>
  With the names bound as the query needs them, the function does what C5 says: it never
  raises; it returns a user only when the presented token is signed with the configured
  secret and algorithm, is not expired, carries a string subject and the token type
  \<open>refresh\<close>, and the returned user is a user of the table whose username is the subject
  and whose stored refresh token equals the presented token; and when no user and token
  meet these conditions, it returns \<open>None\<close>.
\<close>

lemma verify_refresh_token_mapped_checks:
  "(\<exists>r. verify_refresh_token_mapped cfg now us tok = Inr r)
   \<and> (verify_refresh_token_mapped cfg now us tok = Inr (Some u) \<longrightarrow>
        (\<exists>payload name.
            tok = Signed (JWT_SECRET cfg) (JWT_ALGORITHM cfg) payload
          \<and> (\<forall>e. map_of payload ''exp'' = Some (Timestamp e) \<longrightarrow> now \<le> e)
          \<and> map_of payload ''sub'' = Some (Str name)
          \<and> map_of payload ''token_type'' = Some (Str ''refresh'')
          \<and> u \<in> set us \<and> u_username u = name \<and> u_refresh_token u = Some tok))
   \<and> (\<not> (\<exists>payload v.
            tok = Signed (JWT_SECRET cfg) (JWT_ALGORITHM cfg) payload
          \<and> validate_exp now payload = None
          \<and> map_of payload ''sub'' = Some (Str (u_username v))
          \<and> map_of payload ''token_type'' = Some (Str ''refresh'')
          \<and> v \<in> set us \<and> u_refresh_token v = Some tok)
        \<longrightarrow> verify_refresh_token_mapped cfg now us tok = Inr None)"
proof (intro conjI impI)
  show returns: "\<exists>r. verify_refresh_token_mapped cfg now us tok = Inr r"
  proof (cases "jwt_decode now tok (JWT_SECRET cfg) [JWT_ALGORITHM cfg]")
    case (Inl e)
    then obtain f where "e = JWTError f"
      using jwt_decode_error by blast
    with Inl show ?thesis
      by (simp add: verify_refresh_token_mapped_def)
  next
    case (Inr payload)
    then show ?thesis
      by (simp add: verify_refresh_token_mapped_def Let_def)
  qed
  have accepted: "\<exists>payload.
            tok = Signed (JWT_SECRET cfg) (JWT_ALGORITHM cfg) payload
          \<and> validate_exp now payload = None
          \<and> map_of payload ''sub'' = Some (Str (u_username v))
          \<and> map_of payload ''token_type'' = Some (Str ''refresh'')
          \<and> v \<in> set us \<and> u_refresh_token v = Some tok"
    if some: "verify_refresh_token_mapped cfg now us tok = Inr (Some v)" for v
  proof (cases "jwt_decode now tok (JWT_SECRET cfg) [JWT_ALGORITHM cfg]")
    case (Inl e)
    then obtain f where "e = JWTError f"
      using jwt_decode_error by blast
    with Inl some show ?thesis
      by (simp add: verify_refresh_token_mapped_def)
  next
    case (Inr payload)
    then have tok: "tok = Signed (JWT_SECRET cfg) (JWT_ALGORITHM cfg) payload"
      and exp: "validate_exp now payload = None"
      by (auto simp: jwt_decode_Inr_iff)
    from some Inr have ty: "dict_get payload ''token_type'' = Str ''refresh''"
      and found: "first (filter (\<lambda>u. Str (u_username u) = dict_get payload ''sub''
                                    \<and> u_refresh_token u = Some tok) us) = Some v"
      by (auto simp: verify_refresh_token_mapped_def Let_def split: if_splits)
    from first_filter_Some [OF found] have mem: "v \<in> set us"
      and sub: "dict_get payload ''sub'' = Str (u_username v)"
      and stored: "u_refresh_token v = Some tok"
      by simp_all
    from sub have "map_of payload ''sub'' = Some (Str (u_username v))"
      by (simp add: dict_get_Str)
    moreover from ty have "map_of payload ''token_type'' = Some (Str ''refresh'')"
      by (simp add: dict_get_Str)
    ultimately show ?thesis
      using tok exp mem stored by blast
  qed
  {
    assume "verify_refresh_token_mapped cfg now us tok = Inr (Some u)"
    from accepted [OF this] show "\<exists>payload name.
            tok = Signed (JWT_SECRET cfg) (JWT_ALGORITHM cfg) payload
          \<and> (\<forall>e. map_of payload ''exp'' = Some (Timestamp e) \<longrightarrow> now \<le> e)
          \<and> map_of payload ''sub'' = Some (Str name)
          \<and> map_of payload ''token_type'' = Some (Str ''refresh'')
          \<and> u \<in> set us \<and> u_username u = name \<and> u_refresh_token u = Some tok"
      by (auto simp: validate_exp_None_iff)
  }
  {
    assume none: "\<not> (\<exists>payload v.
            tok = Signed (JWT_SECRET cfg) (JWT_ALGORITHM cfg) payload
          \<and> validate_exp now payload = None
          \<and> map_of payload ''sub'' = Some (Str (u_username v))
          \<and> map_of payload ''token_type'' = Some (Str ''refresh'')
          \<and> v \<in> set us \<and> u_refresh_token v = Some tok)"
    from returns obtain r where r: "verify_refresh_token_mapped cfg now us tok = Inr r"
      by blast
    have "r = None"
    proof (cases r)
      case None
      then show ?thesis .
    next
      case (Some v)
      with r accepted [of v] none show ?thesis
        by blast
    qed
    with r show "verify_refresh_token_mapped cfg now us tok = Inr None"
      by simp
  }
qed

lemma verify_refresh_token_mapped_example:
  "verify_refresh_token_mapped example_settings 2000 [alice_logged_in, bob] alice_refresh_token
     = Inr (Some alice_logged_in)"
  by (simp add: verify_refresh_token_mapped_def jwt_decode_def validate_exp_def
      validate_sub_def dict_get_def first_def alice_refresh_token_eq alice_logged_in_def
      example_settings_def alice_simps bob_simps Let_def)

text \<open>
  As it is written, the function agrees with that reading wherever the query is not
  reached, and raises wherever it is: it never returns a user.
\<close>

lemma verify_refresh_token_undecodable:
  assumes "jwt_decode now tok (JWT_SECRET cfg) [JWT_ALGORITHM cfg] = Inl e"
  shows "verify_refresh_token cfg now us tok = Inr None"
proof -
  from assms obtain f where "e = JWTError f"
    using jwt_decode_error by blast
  with assms show ?thesis
    by (simp add: verify_refresh_token_def)
qed

lemma verify_refresh_token_query_reached:
  assumes "jwt_decode now tok (JWT_SECRET cfg) [JWT_ALGORITHM cfg] = Inr payload"
    and "dict_get payload ''sub'' \<noteq> Null"
    and "dict_get payload ''token_type'' = Str ''refresh''"
  shows "verify_refresh_token cfg now us tok = Inl (AttributeError ''query'')"
  using assms by (simp add: verify_refresh_token_def Let_def)

lemma verify_refresh_token_never_a_user:
  "verify_refresh_token cfg now us tok \<noteq> Inr (Some u)"
  by (auto simp: verify_refresh_token_def Let_def split: sum.splits error.splits)

text \<open>
  C5 (\<open>verify_refresh_token\<close> returns a user only for a valid refresh token that equals
  the one stored on the user named by its subject, returns \<open>None\<close> on any validation
  failure or mismatch, and never raises), at the failing input. Alice's refresh token,
  issued at time 1000, is presented at time 2000. Where it is the token stored on her
  record, the call raises \<open>AttributeError\<close> instead of returning her; where her record
  stores no token (a mismatch), the call raises \<open>AttributeError\<close> instead of returning
  \<open>None\<close>.
\<close>

theorem verify_refresh_token_valid_token_raises:
  "verify_refresh_token example_settings 2000 [alice_logged_in, bob] alice_refresh_token
     = Inl (AttributeError ''query'')
   \<and> verify_refresh_token example_settings 2000 [alice, bob] alice_refresh_token
     = Inl (AttributeError ''query'')"
  by (simp add: verify_refresh_token_def jwt_decode_def validate_exp_def validate_sub_def
      dict_get_def alice_refresh_token_eq example_settings_def Let_def)

section \<open>Role checks\<close>

text \<open>
  C7. For every user: \<open>get_current_moderator_user\<close> succeeds exactly when the role is
  moderator or admin, \<open>get_current_admin_user\<close> exactly when the role is admin; in every
  other case the call fails with \<open>HTTPException 403\<close>; and a call that succeeds returns
  the user it was given.
\<close>

theorem role_checks:
  "(get_current_moderator_user usr = Inr usr \<longleftrightarrow> u_role usr = MODERATOR \<or> u_role usr = ADMIN)
   \<and> (get_current_admin_user usr = Inr usr \<longleftrightarrow> u_role usr = ADMIN)
   \<and> (u_role usr \<noteq> MODERATOR \<and> u_role usr \<noteq> ADMIN \<longrightarrow>
        get_current_moderator_user usr = Inl (HTTPException 403 ''Not enough permissions''))
   \<and> (u_role usr \<noteq> ADMIN \<longrightarrow>
        get_current_admin_user usr = Inl (HTTPException 403 ''Not enough permissions''))
   \<and> (\<forall>usr'. get_current_moderator_user usr = Inr usr' \<longrightarrow> usr' = usr)
   \<and> (\<forall>usr'. get_current_admin_user usr = Inr usr' \<longrightarrow> usr' = usr)"
  by (auto simp: get_current_moderator_user_def get_current_admin_user_def)

text \<open>
  Alice has role user: both checks refuse her. Bob has role moderator: the moderator check
  lets him pass, the admin check refuses him.
\<close>

theorem role_checks_witness:
  "u_role alice = USER
   \<and> get_current_admin_user alice = Inl (HTTPException 403 ''Not enough permissions'')
   \<and> get_current_moderator_user alice = Inl (HTTPException 403 ''Not enough permissions'')
   \<and> u_role bob = MODERATOR
   \<and> get_current_moderator_user bob = Inr bob
   \<and> get_current_admin_user bob = Inl (HTTPException 403 ''Not enough permissions'')"
  using role_checks [of alice] role_checks [of bob]
  by (simp add: alice_simps bob_simps)

end
